theory Spec2Isabelle
  imports Complex_Main "HOL-Library.Log_Nat"
begin

section \<open>The vector capability interface\<close>

text \<open>
  \<^verbatim>\<open>aten/src/ATen/native/cpu/LerpKernel.cpp\<close> is written against \<^verbatim>\<open>Vectorized<scalar_t>\<close>,
  a register-width batch of \<^verbatim>\<open>vec_t::size()\<close> elements. The class itself lives in
  \<^verbatim>\<open>ATen/cpu/vec\<close>; only its use is in this file. A batch is modelled as the list of its
  lanes, and the lane arithmetic that the class provides is a parameter: a record of the
  operations the kernel calls. The mask that a comparison returns (all bits or no bits of
  a lane) is modelled as one \<open>bool\<close> per lane.
\<close>

record 'a vec_arith =
  vec_size :: nat
  vec_one :: 'a
  lane_minus :: "'a \<Rightarrow> 'a \<Rightarrow> 'a"
  lane_fmadd :: "'a \<Rightarrow> 'a \<Rightarrow> 'a \<Rightarrow> 'a"

text \<open>What \<^verbatim>\<open>is_lerp_weight_small\<close> needs in addition on a real element type.\<close>

record 'a vec_real = "'a vec_arith" +
  lane_abs :: "'a \<Rightarrow> 'a"
  lane_less :: "'a \<Rightarrow> 'a \<Rightarrow> bool"
  vec_half :: 'a

text \<open>
  What it needs on \<^verbatim>\<open>c10::complex<value_t>\<close>: the squared magnitude \<^verbatim>\<open>abs_2_()\<close>, which is a
  batch of \<^verbatim>\<open>value_t\<close>, and the comparison and the constant \<^verbatim>\<open>0.25\<close> of \<^verbatim>\<open>value_t\<close>.
\<close>

record ('c, 'v) vec_complex = "'c vec_arith" +
  lane_abs_2 :: "'c \<Rightarrow> 'v"
  value_less :: "'v \<Rightarrow> 'v \<Rightarrow> bool"
  value_quarter :: 'v

text \<open>
  Modelled from the spec: the constructor \<^verbatim>\<open>Vectorized<scalar_t>(x)\<close> is the interface's
  "construction from a scalar (broadcast)"; the operators on batches act lane by lane.
\<close>

definition broadcast :: "('a, 'm) vec_arith_scheme \<Rightarrow> 'a \<Rightarrow> 'a list" where
  "broadcast cap x = replicate (vec_size cap) x"

definition vec_minus :: "('a, 'm) vec_arith_scheme \<Rightarrow> 'a list \<Rightarrow> 'a list \<Rightarrow> 'a list" where
  "vec_minus cap a b = map (\<lambda>(x, y). lane_minus cap x y) (zip a b)"

definition vec_fmadd ::
  "('a, 'm) vec_arith_scheme \<Rightarrow> 'a list \<Rightarrow> 'a list \<Rightarrow> 'a list \<Rightarrow> 'a list" where
  "vec_fmadd cap a b c = map (\<lambda>(x, y, z). lane_fmadd cap x y z) (zip a (zip b c))"

text \<open>
  Modelled from the spec: \<^verbatim>\<open>Vectorized::blendv\<close> is the interface's "select-by-mask
  (blend)"; \<^verbatim>\<open>blendv(a, b, mask)\<close> takes the lane of \<open>b\<close> where the mask is set and the
  lane of \<open>a\<close> elsewhere.
\<close>

definition blendv :: "'a list \<Rightarrow> 'a list \<Rightarrow> bool list \<Rightarrow> 'a list" where
  "blendv a b msk = map (\<lambda>(x, y, m). if m then y else x) (zip a (zip b msk))"

text \<open>
  Modelled from the spec: \<^verbatim>\<open>store\<close> and \<^verbatim>\<open>loadu\<close> are the interface's "load/store to/from
  contiguous memory"; \<^verbatim>\<open>store\<close> copies the lanes of a batch to memory and \<^verbatim>\<open>loadu\<close> reads
  \<^verbatim>\<open>size()\<close> lanes back.
\<close>

definition store :: "'a list \<Rightarrow> 'a list" where
  "store v = v"

definition loadu :: "('a, 'm) vec_arith_scheme \<Rightarrow> 'a list \<Rightarrow> 'a list" where
  "loadu cap arr = take (vec_size cap) arr"

section \<open>The weight-magnitude classifier\<close>

text \<open>
  \<^verbatim>\<open>return weight.abs() < Vectorized<scalar_t>(0.5);\<close>
\<close>

definition is_lerp_weight_small :: "('a, 'm) vec_real_scheme \<Rightarrow> 'a list \<Rightarrow> bool list" where
  "is_lerp_weight_small cap weight =
     map (\<lambda>(x, y). lane_less cap x y)
       (zip (map (lane_abs cap) weight) (broadcast cap (vec_half cap)))"

text \<open>
  \<^verbatim>\<open>vec_reg_t mask = Vectorized<value_t>(weight.abs_2_()) < Vectorized<value_t>(0.25);\<close>
  \<^verbatim>\<open>return Vectorized<c10::complex<value_t>>(mask);\<close>
  One mask lane per complex lane.
\<close>

definition is_lerp_weight_small_complex ::
  "('c, 'v, 'm) vec_complex_scheme \<Rightarrow> 'c list \<Rightarrow> bool list" where
  "is_lerp_weight_small_complex cap weight =
     map (\<lambda>(x, y). value_less cap x y)
       (zip (map (lane_abs_2 cap) weight) (replicate (vec_size cap) (value_quarter cap)))"

section \<open>The fallback: unpack, scalar lerp, repack\<close>

text \<open>
  The loop of \<^verbatim>\<open>lerp_vec_map\<close> over \<^verbatim>\<open>c10::irange(vec_t::size())\<close>. The scalar \<^verbatim>\<open>lerp\<close> is
  declared in \<^verbatim>\<open>ATen/native/Lerp.h\<close> and is a parameter here.
\<close>

fun lerp_vec_map_loop ::
  "('a \<Rightarrow> 'a \<Rightarrow> 'a \<Rightarrow> 'a) \<Rightarrow> 'a list \<Rightarrow> 'a list \<Rightarrow> 'a list \<Rightarrow> nat list \<Rightarrow> 'a list \<Rightarrow> 'a list"
  where
  "lerp_vec_map_loop lerp start_arr end_arr weight_arr [] result_arr = result_arr"
| "lerp_vec_map_loop lerp start_arr end_arr weight_arr (i # is) result_arr =
     lerp_vec_map_loop lerp start_arr end_arr weight_arr is
       (result_arr[i := lerp (start_arr ! i) (end_arr ! i) (weight_arr ! i)])"

text \<open>
  \<open>result_arr0\<close> is what the uninitialised stack array \<^verbatim>\<open>result_arr\<close> holds on entry.
\<close>

definition lerp_vec_map ::
  "('a \<Rightarrow> 'a \<Rightarrow> 'a \<Rightarrow> 'a) \<Rightarrow> ('a, 'm) vec_arith_scheme \<Rightarrow> 'a list \<Rightarrow>
   'a list \<Rightarrow> 'a list \<Rightarrow> 'a list \<Rightarrow> 'a list" where
  "lerp_vec_map lerp cap result_arr0 start end weight =
     (let start_arr = store start;
          end_arr = store end;
          weight_arr = store weight;
          result_arr =
            lerp_vec_map_loop lerp start_arr end_arr weight_arr [0..<vec_size cap] result_arr0
      in loadu cap result_arr)"

text \<open>The scalar formula applied to every element in turn, with no batches.\<close>

definition scalar_loop ::
  "('a \<Rightarrow> 'a \<Rightarrow> 'a \<Rightarrow> 'a) \<Rightarrow> 'a list \<Rightarrow> 'a list \<Rightarrow> 'a list \<Rightarrow> 'a list" where
  "scalar_loop lerp start end weight =
     map (\<lambda>(s, e, w). lerp s e w) (zip start (zip end weight))"

section \<open>The vectorized formula\<close>

text \<open>
  The body of the template \<^verbatim>\<open>lerp_vec\<close>, with the mask that the call
  \<^verbatim>\<open>is_lerp_weight_small(weight)\<close> returns as an argument: overload resolution picks the real
  or the complex classifier by the element type.
  \<^verbatim>\<open>auto coeff = vec_t::blendv(weight - vec_t(1), weight, mask);\<close>
  \<^verbatim>\<open>auto base = vec_t::blendv(end, start, mask);\<close>
  \<^verbatim>\<open>return vec::fmadd(coeff, end - start, base);\<close>
\<close>

definition lerp_vec_template ::
  "('a, 'm) vec_arith_scheme \<Rightarrow> bool list \<Rightarrow> 'a list \<Rightarrow> 'a list \<Rightarrow> 'a list \<Rightarrow> 'a list" where
  "lerp_vec_template cap msk start end weight =
     (let coeff = blendv (vec_minus cap weight (broadcast cap (vec_one cap))) weight msk;
          base = blendv end start msk
      in vec_fmadd cap coeff (vec_minus cap end start) base)"

text \<open>The template at a real element type.\<close>

definition lerp_vec :: "('a, 'm) vec_real_scheme \<Rightarrow> 'a list \<Rightarrow> 'a list \<Rightarrow> 'a list \<Rightarrow> 'a list" where
  "lerp_vec cap start end weight =
     lerp_vec_template cap (is_lerp_weight_small cap weight) start end weight"

text \<open>
  The preprocessor condition \<^verbatim>\<open>!defined(CPU_CAPABILITY_DEFAULT) || defined(_MSC_VER)\<close> decides
  what a complex element type gets: the complex classifier under the template, or the
  overload of \<^verbatim>\<open>lerp_vec\<close> that calls \<^verbatim>\<open>lerp_vec_map\<close>.
\<close>

record build_config =
  cpu_capability_default :: bool
  msc_ver :: bool

definition direct_complex_path :: "build_config \<Rightarrow> bool" where
  "direct_complex_path cfg = (\<not> cpu_capability_default cfg \<or> msc_ver cfg)"

definition lerp_vec_complex ::
  "build_config \<Rightarrow> ('c \<Rightarrow> 'c \<Rightarrow> 'c \<Rightarrow> 'c) \<Rightarrow> ('c, 'v, 'm) vec_complex_scheme \<Rightarrow> 'c list \<Rightarrow>
   'c list \<Rightarrow> 'c list \<Rightarrow> 'c list \<Rightarrow> 'c list" where
  "lerp_vec_complex cfg lerp cap result_arr0 start end weight =
     (if direct_complex_path cfg
      then lerp_vec_template cap (is_lerp_weight_small_complex cap weight) start end weight
      else lerp_vec_map lerp cap result_arr0 start end weight)"

section \<open>Dispatch and the two kernels\<close>

datatype ScalarType =
  kByte | kChar | kShort | kInt | kLong | kFloat | kDouble | kComplexFloat | kComplexDouble | kBool

datatype error = NotImplementedError string ScalarType

fun is_floating_type :: "ScalarType \<Rightarrow> bool" where
  "is_floating_type kFloat = True"
| "is_floating_type kDouble = True"
| "is_floating_type _ = False"

fun is_complex_type :: "ScalarType \<Rightarrow> bool" where
  "is_complex_type kComplexFloat = True"
| "is_complex_type kComplexDouble = True"
| "is_complex_type _ = False"

text \<open>
  Modelled from the spec: the macro \<^verbatim>\<open>AT_DISPATCH_FLOATING_AND_COMPLEX_TYPES\<close> of
  \<^verbatim>\<open>ATen/Dispatch.h\<close> is not in this file. It runs the body at the element type that the
  declared common type selects, "failing if the type is outside {floating-point types,
  complex-floating-point types}", "before any computation". The body acts on a state
  \<open>'s\<close>; a failure leaves the state as it was.
\<close>

definition AT_DISPATCH_FLOATING_AND_COMPLEX_TYPES ::
  "ScalarType \<Rightarrow> string \<Rightarrow> ('s \<Rightarrow> 's) \<Rightarrow> 's \<Rightarrow> (error + unit) \<times> 's" where
  "AT_DISPATCH_FLOATING_AND_COMPLEX_TYPES dtype name body st =
     (if is_floating_type dtype \<or> is_complex_type dtype
      then (Inr (), body st)
      else (Inl (NotImplementedError name dtype), st))"

text \<open>
  The iterator, as far as the kernels use it: the declared common element type, the
  output range and the operands in the order in which the closures receive them. The
  scalar-weight kernel has no weight operand and does not read \<open>input_weight\<close>.
\<close>

record 'a TensorIteratorBase =
  common_dtype :: ScalarType
  iter_output :: "'a list"
  input_self :: "'a list"
  input_end :: "'a list"
  input_weight :: "'a list"

text \<open>
  Modelled from the spec: \<^verbatim>\<open>cpu_kernel_vec\<close> of \<^verbatim>\<open>ATen/native/cpu/Loops.h\<close> is not in this
  file. The engine "accepts a per-element callable and a per-vector-batch callable" and
  calls "exactly one of them per covered position (batch callable for full-width-aligned
  runs, element callable for remainder/unaligned positions)". Over one contiguous range:
  full batches of \<open>n\<close> lanes while they last, then the remainder element by element.
  One function for each arity the kernels use.
\<close>

function cpu_kernel_vec2 ::
  "nat \<Rightarrow> ('a \<Rightarrow> 'a \<Rightarrow> 'a) \<Rightarrow> ('a list \<Rightarrow> 'a list \<Rightarrow> 'a list) \<Rightarrow> 'a list \<Rightarrow> 'a list \<Rightarrow> 'a list" where
  "cpu_kernel_vec2 n op vop a b =
     (if 0 < n \<and> n \<le> length a \<and> n \<le> length b
      then vop (take n a) (take n b) @ cpu_kernel_vec2 n op vop (drop n a) (drop n b)
      else map (\<lambda>(x, y). op x y) (zip a b))"
  by pat_completeness auto
termination
  by (relation "measure (\<lambda>(n, op, vop, a, b). length a)") auto

declare cpu_kernel_vec2.simps [simp del]

text \<open>
  Modelled from the spec: the same engine with three operands, as the tensor-weight
  kernel calls it.
\<close>

function cpu_kernel_vec3 ::
  "nat \<Rightarrow> ('a \<Rightarrow> 'a \<Rightarrow> 'a \<Rightarrow> 'a) \<Rightarrow> ('a list \<Rightarrow> 'a list \<Rightarrow> 'a list \<Rightarrow> 'a list) \<Rightarrow>
   'a list \<Rightarrow> 'a list \<Rightarrow> 'a list \<Rightarrow> 'a list" where
  "cpu_kernel_vec3 n op vop a b c =
     (if 0 < n \<and> n \<le> length a \<and> n \<le> length b \<and> n \<le> length c
      then vop (take n a) (take n b) (take n c)
           @ cpu_kernel_vec3 n op vop (drop n a) (drop n b) (drop n c)
      else map (\<lambda>(x, y, z). op x y z) (zip a (zip b c)))"
  by pat_completeness auto
termination
  by (relation "measure (\<lambda>(n, op, vop, a, b, c). length a)") auto

declare cpu_kernel_vec3.simps [simp del]

text \<open>
  Inside the dispatch body \<^verbatim>\<open>scalar_t\<close> is fixed, and with it the lane count, the scalar
  \<^verbatim>\<open>lerp\<close> of \<^verbatim>\<open>ATen/native/Lerp.h\<close> and the overload of \<^verbatim>\<open>lerp_vec\<close> that applies.
\<close>

record 'a lerp_instance =
  inst_size :: nat
  inst_lerp :: "'a \<Rightarrow> 'a \<Rightarrow> 'a \<Rightarrow> 'a"
  inst_lerp_vec :: "'a list \<Rightarrow> 'a list \<Rightarrow> 'a list \<Rightarrow> 'a list"

text \<open>
  At a real element type \<^verbatim>\<open>lerp_vec\<close> is the template with the real classifier; at a
  complex one it is \<open>lerp_vec_complex\<close>.
\<close>

definition real_instance ::
  "('a, 'm) vec_real_scheme \<Rightarrow> ('a \<Rightarrow> 'a \<Rightarrow> 'a \<Rightarrow> 'a) \<Rightarrow> 'a lerp_instance" where
  "real_instance cap lerp =
     \<lparr>inst_size = vec_size cap, inst_lerp = lerp, inst_lerp_vec = lerp_vec cap\<rparr>"

definition complex_instance ::
  "build_config \<Rightarrow> ('c, 'v, 'm) vec_complex_scheme \<Rightarrow> ('c \<Rightarrow> 'c \<Rightarrow> 'c \<Rightarrow> 'c) \<Rightarrow> 'c list \<Rightarrow>
   'c lerp_instance" where
  "complex_instance cfg cap lerp result_arr0 =
     \<lparr>inst_size = vec_size cap, inst_lerp = lerp,
      inst_lerp_vec = lerp_vec_complex cfg lerp cap result_arr0\<rparr>"

text \<open>
  \<^verbatim>\<open>lerp_scalar_kernel(iter, weight)\<close>; \<open>to_scalar_t\<close> is \<^verbatim>\<open>weight.to<scalar_t>()\<close>.
\<close>

definition lerp_scalar_kernel ::
  "'a lerp_instance \<Rightarrow> ('w \<Rightarrow> 'a) \<Rightarrow> 'a TensorIteratorBase \<Rightarrow> 'w \<Rightarrow>
   (error + unit) \<times> 'a TensorIteratorBase" where
  "lerp_scalar_kernel inst to_scalar_t iter weight =
     AT_DISPATCH_FLOATING_AND_COMPLEX_TYPES (common_dtype iter) ''lerp_kernel_scalar''
       (\<lambda>it. let weight_val = to_scalar_t weight in
          it\<lparr>iter_output :=
            cpu_kernel_vec2 (inst_size inst)
              (\<lambda>self_val end_val. inst_lerp inst self_val end_val weight_val)
              (\<lambda>self end. let weight = replicate (inst_size inst) weight_val
                          in inst_lerp_vec inst self end weight)
              (input_self it) (input_end it)\<rparr>)
       iter"

definition lerp_tensor_kernel ::
  "'a lerp_instance \<Rightarrow> 'a TensorIteratorBase \<Rightarrow> (error + unit) \<times> 'a TensorIteratorBase" where
  "lerp_tensor_kernel inst iter =
     AT_DISPATCH_FLOATING_AND_COMPLEX_TYPES (common_dtype iter) ''lerp_kernel_tensor''
       (\<lambda>it. it\<lparr>iter_output :=
            cpu_kernel_vec3 (inst_size inst)
              (\<lambda>self_val end_val weight_val. inst_lerp inst self_val end_val weight_val)
              (\<lambda>self_val end_val weight_val. inst_lerp_vec inst self_val end_val weight_val)
              (input_self it) (input_end it) (input_weight it)\<rparr>)
       iter"

section \<open>Element arithmetic\<close>

text \<open>
  The element types are IEEE 754 binary formats. A value is a NaN, an infinity or a
  finite number; the two zeros are one value here, and NaNs are not told apart. The
  rounding of an exact finite result to the element type is a parameter \<open>rnd\<close>, which
  may overflow to an infinity.
\<close>

datatype fval = NaN | PInf | NInf | Fin rat

fun is_finite :: "fval \<Rightarrow> bool" where
  "is_finite (Fin x) = True"
| "is_finite _ = False"

fun ext_uminus :: "fval \<Rightarrow> fval" where
  "ext_uminus NaN = NaN"
| "ext_uminus PInf = NInf"
| "ext_uminus NInf = PInf"
| "ext_uminus (Fin x) = Fin (- x)"

text \<open>Exact sum and product, before any rounding.\<close>

fun ext_plus :: "fval \<Rightarrow> fval \<Rightarrow> fval" where
  "ext_plus NaN b = NaN"
| "ext_plus a NaN = NaN"
| "ext_plus PInf NInf = NaN"
| "ext_plus NInf PInf = NaN"
| "ext_plus PInf b = PInf"
| "ext_plus a PInf = PInf"
| "ext_plus NInf b = NInf"
| "ext_plus a NInf = NInf"
| "ext_plus (Fin x) (Fin y) = Fin (x + y)"

fun inf_times :: "bool \<Rightarrow> rat \<Rightarrow> fval" where
  "inf_times positive x =
     (if x = 0 then NaN else if (0 < x) = positive then PInf else NInf)"

fun ext_times :: "fval \<Rightarrow> fval \<Rightarrow> fval" where
  "ext_times NaN b = NaN"
| "ext_times a NaN = NaN"
| "ext_times PInf PInf = PInf"
| "ext_times PInf NInf = NInf"
| "ext_times NInf PInf = NInf"
| "ext_times NInf NInf = PInf"
| "ext_times PInf (Fin y) = inf_times True y"
| "ext_times NInf (Fin y) = inf_times False y"
| "ext_times (Fin x) PInf = inf_times True x"
| "ext_times (Fin x) NInf = inf_times False x"
| "ext_times (Fin x) (Fin y) = Fin (x * y)"

fun round_with :: "(rat \<Rightarrow> fval) \<Rightarrow> fval \<Rightarrow> fval" where
  "round_with rnd (Fin x) = rnd x"
| "round_with rnd a = a"

definition f_minus :: "(rat \<Rightarrow> fval) \<Rightarrow> fval \<Rightarrow> fval \<Rightarrow> fval" where
  "f_minus rnd a b = round_with rnd (ext_plus a (ext_uminus b))"

text \<open>
  Modelled from the spec: \<^verbatim>\<open>vec::fmadd\<close> belongs to the vector interface and is not in this
  file; it is "a single rounding-step operation computing \<open>a*b+c\<close> with one rounding
  instead of two": the exact \<open>a * b + c\<close>, rounded once.
\<close>

definition f_fmadd :: "(rat \<Rightarrow> fval) \<Rightarrow> fval \<Rightarrow> fval \<Rightarrow> fval \<Rightarrow> fval" where
  "f_fmadd rnd a b c = round_with rnd (ext_plus (ext_times a b) c)"

fun f_abs :: "fval \<Rightarrow> fval" where
  "f_abs NaN = NaN"
| "f_abs PInf = PInf"
| "f_abs NInf = PInf"
| "f_abs (Fin x) = Fin \<bar>x\<bar>"

text \<open>The comparisons \<^verbatim>\<open><\<close> and \<^verbatim>\<open>==\<close>: false whenever an operand is a NaN.\<close>

fun f_less :: "fval \<Rightarrow> fval \<Rightarrow> bool" where
  "f_less NaN b = False"
| "f_less a NaN = False"
| "f_less a NInf = False"
| "f_less PInf b = False"
| "f_less NInf b = True"
| "f_less a PInf = True"
| "f_less (Fin x) (Fin y) = (x < y)"

fun f_eq :: "fval \<Rightarrow> fval \<Rightarrow> bool" where
  "f_eq NaN b = False"
| "f_eq a NaN = False"
| "f_eq a b = (a = b)"

text \<open>Sum and product of the element type: the exact result, rounded.\<close>

definition f_plus :: "(rat \<Rightarrow> fval) \<Rightarrow> fval \<Rightarrow> fval \<Rightarrow> fval" where
  "f_plus rnd a b = round_with rnd (ext_plus a b)"

definition f_times :: "(rat \<Rightarrow> fval) \<Rightarrow> fval \<Rightarrow> fval \<Rightarrow> fval" where
  "f_times rnd a b = round_with rnd (ext_times a b)"

definition ieee_cap :: "(rat \<Rightarrow> fval) \<Rightarrow> nat \<Rightarrow> fval vec_real" where
  "ieee_cap rnd n =
     \<lparr>vec_size = n, vec_one = Fin 1, lane_minus = f_minus rnd, lane_fmadd = f_fmadd rnd,
      lane_abs = f_abs, lane_less = f_less, vec_half = Fin (1 / 2)\<rparr>"

text \<open>
  A rounding for the examples: exact up to a largest finite magnitude, an infinity beyond.
\<close>

definition rnd_upto :: "rat \<Rightarrow> rat \<Rightarrow> fval" where
  "rnd_upto bound x = (if bound < x then PInf else if x < - bound then NInf else Fin x)"

text \<open>
  Round to nearest, ties to even, in a binary format of precision \<open>p\<close> with exponents from
  \<open>emin\<close> to \<open>emax\<close>: \<open>binade x\<close> is the \<open>e\<close> with \<open>2\<^sup>e \<le> |x| < 2\<^sup>e\<^sup>+\<^sup>1\<close>, the spacing of
  the format there is \<open>2\<^sup>e\<^sup>-\<^sup>p\<^sup>+\<^sup>1\<close> (that of \<open>emin\<close> below the normal range), and a result
  that reaches \<open>2\<^sup>e\<^sup>m\<^sup>a\<^sup>x\<^sup>+\<^sup>1\<close> is an infinity. \<^verbatim>\<open>double\<close> is the format with \<open>p = 53\<close>,
  \<open>emin = -1022\<close> and \<open>emax = 1023\<close>.
\<close>

definition round_half_even :: "rat \<Rightarrow> int" where
  "round_half_even x =
     (let n = \<lfloor>x\<rfloor>; r = x - of_int n
      in if r < 1 / 2 then n else if 1 / 2 < r then n + 1 else if even n then n else n + 1)"

definition pow2 :: "int \<Rightarrow> rat" where
  "pow2 k = (if 0 \<le> k then of_int (2 ^ nat k) else 1 / of_int (2 ^ nat (- k)))"

definition binade :: "rat \<Rightarrow> int" where
  "binade x =
     (let (n, d) = quotient_of \<bar>x\<bar>;
          k = bitlen n - bitlen d
      in if pow2 k \<le> \<bar>x\<bar> then k else k - 1)"

definition round_binary :: "nat \<Rightarrow> int \<Rightarrow> int \<Rightarrow> rat \<Rightarrow> fval" where
  "round_binary p emin emax x =
     (if x = 0 then Fin 0
      else let e = max (binade x) emin;
               q = pow2 (e - int p + 1);
               y = of_int (round_half_even (x / q)) * q
           in if pow2 (emax + 1) \<le> \<bar>y\<bar> then (if 0 < x then PInf else NInf) else Fin y)"

definition rnd_binary64 :: "rat \<Rightarrow> fval" where
  "rnd_binary64 = round_binary 53 (- 1022) 1023"

text \<open>
  A complex element is the pair of its real and imaginary component, each a value of the
  component type. Difference and sum act on the components; the product is
  \<open>(a c - b d, a d + b c)\<close> with every operation rounded.
\<close>

fun c_minus :: "(rat \<Rightarrow> fval) \<Rightarrow> fval \<times> fval \<Rightarrow> fval \<times> fval \<Rightarrow> fval \<times> fval" where
  "c_minus rnd (a, b) (c, d) = (f_minus rnd a c, f_minus rnd b d)"

fun c_plus :: "(rat \<Rightarrow> fval) \<Rightarrow> fval \<times> fval \<Rightarrow> fval \<times> fval \<Rightarrow> fval \<times> fval" where
  "c_plus rnd (a, b) (c, d) = (f_plus rnd a c, f_plus rnd b d)"

fun c_times :: "(rat \<Rightarrow> fval) \<Rightarrow> fval \<times> fval \<Rightarrow> fval \<times> fval \<Rightarrow> fval \<times> fval" where
  "c_times rnd (a, b) (c, d) =
     (f_minus rnd (f_times rnd a c) (f_times rnd b d),
      f_plus rnd (f_times rnd a d) (f_times rnd b c))"

text \<open>
  Modelled from the spec: \<^verbatim>\<open>vec::fmadd\<close> on complex batches is not in this file; as for the
  real element types it is "a single rounding-step operation computing \<open>a*b+c\<close> with one
  rounding instead of two": each component of the exact \<open>a * b + c\<close>, rounded once.
\<close>

fun c_fmadd ::
  "(rat \<Rightarrow> fval) \<Rightarrow> fval \<times> fval \<Rightarrow> fval \<times> fval \<Rightarrow> fval \<times> fval \<Rightarrow> fval \<times> fval" where
  "c_fmadd rnd (a, b) (c, d) (x, y) =
     (round_with rnd (ext_plus (ext_plus (ext_times a c) (ext_uminus (ext_times b d))) x),
      round_with rnd (ext_plus (ext_plus (ext_times a d) (ext_times b c)) y))"

text \<open>
  Modelled from the spec: \<^verbatim>\<open>abs_2_()\<close> is the interface's "squared-magnitude primitive",
  "computed in the real-component domain": the sum of the squares of the two components,
  in the arithmetic of the component type.
\<close>

fun c_abs_2 :: "(rat \<Rightarrow> fval) \<Rightarrow> fval \<times> fval \<Rightarrow> fval" where
  "c_abs_2 rnd (a, b) = f_plus rnd (f_times rnd a a) (f_times rnd b b)"

definition ieee_complex_cap :: "(rat \<Rightarrow> fval) \<Rightarrow> nat \<Rightarrow> (fval \<times> fval, fval) vec_complex" where
  "ieee_complex_cap rnd n =
     \<lparr>vec_size = n, vec_one = (Fin 1, Fin 0), lane_minus = c_minus rnd,
      lane_fmadd = c_fmadd rnd, lane_abs_2 = c_abs_2 rnd, value_less = f_less,
      value_quarter = Fin (1 / 4)\<rparr>"


definition lerp_spec_complex ::
  "(rat \<Rightarrow> fval) \<Rightarrow> fval \<times> fval \<Rightarrow> fval \<times> fval \<Rightarrow> fval \<times> fval \<Rightarrow> fval \<times> fval" where
  "lerp_spec_complex rnd start end weight =
     c_plus rnd start (c_times rnd weight (c_minus rnd end start))"

text \<open>An intermediate result is computed exactly when rounding leaves it as it is.\<close>

definition computed_exactly :: "(rat \<Rightarrow> fval) \<Rightarrow> rat list \<Rightarrow> bool" where
  "computed_exactly rnd xs = list_all (\<lambda>x. rnd x = Fin x) xs"

text \<open>
  The interface over exact numbers, an ordered field and the complex numbers, for the
  algebra of the formula only: nothing is rounded and every value is finite, so this is
  not the arithmetic of an element type.
\<close>

definition exact_cap :: "nat \<Rightarrow> ('a::linordered_field) vec_real" where
  "exact_cap n =
     \<lparr>vec_size = n, vec_one = 1, lane_minus = (\<lambda>a b. a - b), lane_fmadd = (\<lambda>a b c. a * b + c),
      lane_abs = abs, lane_less = (\<lambda>a b. a < b), vec_half = 1 / 2\<rparr>"

definition exact_complex_cap :: "nat \<Rightarrow> (complex, real) vec_complex" where
  "exact_complex_cap n =
     \<lparr>vec_size = n, vec_one = 1, lane_minus = (\<lambda>a b. a - b), lane_fmadd = (\<lambda>a b c. a * b + c),
      lane_abs_2 = (\<lambda>z. Re z * Re z + Im z * Im z), value_less = (\<lambda>a b. a < b),
      value_quarter = 1 / 4\<rparr>"

section \<open>The fallback loop\<close>

lemma lerp_vec_map_loop_length:
  "length (lerp_vec_map_loop lerp sa ea wa is ra) = length ra"
  by (induction "is" arbitrary: ra) simp_all

lemma lerp_vec_map_loop_other:
  "j \<notin> set is \<Longrightarrow> lerp_vec_map_loop lerp sa ea wa is ra ! j = ra ! j"
  by (induction "is" arbitrary: ra) (simp_all add: nth_list_update)

lemma lerp_vec_map_loop_written:
  "j \<in> set is \<Longrightarrow> j < length ra \<Longrightarrow>
   lerp_vec_map_loop lerp sa ea wa is ra ! j = lerp (sa ! j) (ea ! j) (wa ! j)"
proof (induction "is" arbitrary: ra)
  case Nil
  then show ?case by simp
next
  case (Cons i "is")
  show ?case
  proof (cases "j \<in> set is")
    case True
    with Cons show ?thesis by simp
  next
    case False
    with Cons.prems have "j = i" by simp
    with False Cons.prems show ?thesis
      by (simp add: lerp_vec_map_loop_other)
  qed
qed

lemma lerp_vec_map_eq_scalar_loop:
  assumes "length start = vec_size cap" and "length end = vec_size cap"
    and "length weight = vec_size cap" and "length result_arr0 = vec_size cap"
  shows "lerp_vec_map lerp cap result_arr0 start end weight = scalar_loop lerp start end weight"
proof (rule nth_equalityI)
  show "length (lerp_vec_map lerp cap result_arr0 start end weight)
      = length (scalar_loop lerp start end weight)"
    using assms
    by (simp add: lerp_vec_map_def scalar_loop_def loadu_def store_def
        lerp_vec_map_loop_length)
next
  fix i
  assume "i < length (lerp_vec_map lerp cap result_arr0 start end weight)"
  with assms have i: "i < vec_size cap"
    by (simp add: lerp_vec_map_def loadu_def store_def lerp_vec_map_loop_length)
  with assms show "lerp_vec_map lerp cap result_arr0 start end weight ! i
      = scalar_loop lerp start end weight ! i"
    by (simp add: lerp_vec_map_def scalar_loop_def loadu_def store_def
        lerp_vec_map_loop_written)
qed

section \<open>Lanes of the vectorized formula\<close>

lemma lerp_vec_template_length:
  "length (lerp_vec_template cap msk start end weight) =
     min (min (min (length weight) (vec_size cap)) (length msk)) (min (length start) (length end))"
  unfolding lerp_vec_template_def vec_fmadd_def vec_minus_def blendv_def broadcast_def Let_def
  by simp arith

lemma lerp_vec_template_nth:
  assumes "i < length weight" and "i < vec_size cap" and "i < length msk"
    and "i < length start" and "i < length end"
  shows "lerp_vec_template cap msk start end weight ! i =
     lane_fmadd cap (if msk ! i then weight ! i else lane_minus cap (weight ! i) (vec_one cap))
       (lane_minus cap (end ! i) (start ! i)) (if msk ! i then start ! i else end ! i)"
  using assms
  by (simp add: lerp_vec_template_def vec_fmadd_def vec_minus_def blendv_def broadcast_def Let_def)

lemma lerp_vec_template_lanes:
  assumes "length weight = vec_size cap"
  shows "lerp_vec_template cap msk start end weight =
     map (\<lambda>(m, s, e, w).
            lane_fmadd cap (if m then w else lane_minus cap w (vec_one cap))
              (lane_minus cap e s) (if m then s else e))
       (zip msk (zip start (zip end weight)))"
proof (rule nth_equalityI)
  show "length (lerp_vec_template cap msk start end weight) =
    length (map (\<lambda>(m, s, e, w).
            lane_fmadd cap (if m then w else lane_minus cap w (vec_one cap))
              (lane_minus cap e s) (if m then s else e))
       (zip msk (zip start (zip end weight))))"
    using assms by (simp add: lerp_vec_template_length)
next
  fix i
  assume "i < length (lerp_vec_template cap msk start end weight)"
  with assms have "i < length weight" "i < vec_size cap" "i < length msk"
    "i < length start" "i < length end"
    by (simp_all add: lerp_vec_template_length)
  then show "lerp_vec_template cap msk start end weight ! i =
     map (\<lambda>(m, s, e, w).
            lane_fmadd cap (if m then w else lane_minus cap w (vec_one cap))
              (lane_minus cap e s) (if m then s else e))
       (zip msk (zip start (zip end weight))) ! i"
    by (simp add: lerp_vec_template_nth)
qed

lemma is_lerp_weight_small_lanes:
  assumes "length weight = vec_size cap"
  shows "is_lerp_weight_small cap weight =
     map (\<lambda>w. lane_less cap (lane_abs cap w) (vec_half cap)) weight"
  using assms
  by (intro nth_equalityI) (simp_all add: is_lerp_weight_small_def broadcast_def)

lemma is_lerp_weight_small_complex_lanes:
  assumes "length weight = vec_size cap"
  shows "is_lerp_weight_small_complex cap weight =
     map (\<lambda>w. value_less cap (lane_abs_2 cap w) (value_quarter cap)) weight"
  using assms
  by (intro nth_equalityI) (simp_all add: is_lerp_weight_small_complex_def)

lemma lerp_vec_nth:
  assumes "length start = vec_size cap" and "length end = vec_size cap"
    and "length weight = vec_size cap" and "i < vec_size cap"
  shows "lerp_vec cap start end weight ! i =
     (if lane_less cap (lane_abs cap (weight ! i)) (vec_half cap)
      then lane_fmadd cap (weight ! i) (lane_minus cap (end ! i) (start ! i)) (start ! i)
      else lane_fmadd cap (lane_minus cap (weight ! i) (vec_one cap))
             (lane_minus cap (end ! i) (start ! i)) (end ! i))"
  using assms
  by (simp add: lerp_vec_def lerp_vec_template_lanes is_lerp_weight_small_lanes)


section \<open>Facts of the element arithmetic\<close>

lemma ieee_cap_simps:
  "vec_size (ieee_cap rnd n) = n" "vec_one (ieee_cap rnd n) = Fin 1"
  "lane_minus (ieee_cap rnd n) = f_minus rnd" "lane_fmadd (ieee_cap rnd n) = f_fmadd rnd"
  "lane_abs (ieee_cap rnd n) = f_abs" "lane_less (ieee_cap rnd n) = f_less"
  "vec_half (ieee_cap rnd n) = Fin (1 / 2)"
  by (simp_all add: ieee_cap_def)

lemma ieee_lerp_vec_nth:
  assumes "length start = n" and "length end = n" and "length weight = n" and "i < n"
  shows "lerp_vec (ieee_cap rnd n) start end weight ! i =
     (if f_less (f_abs (weight ! i)) (Fin (1 / 2))
      then f_fmadd rnd (weight ! i) (f_minus rnd (end ! i) (start ! i)) (start ! i)
      else f_fmadd rnd (f_minus rnd (weight ! i) (Fin 1))
             (f_minus rnd (end ! i) (start ! i)) (end ! i))"
  using assms lerp_vec_nth [of start "ieee_cap rnd n" "end" weight i]
  by (simp only: ieee_cap_simps)

lemma f_less_abs_half:
  "f_less (f_abs w) (Fin (1 / 2)) = (case w of Fin x \<Rightarrow> \<bar>x\<bar> < 1 / 2 | _ \<Rightarrow> False)"
  by (cases w) simp_all

lemma ext_times_zero_not_finite: "\<not> is_finite d \<Longrightarrow> ext_times (Fin 0) d = NaN"
  by (cases d) simp_all


lemma f_fmadd_zero_not_finite: "\<not> is_finite d \<Longrightarrow> f_fmadd rnd (Fin 0) d b = NaN"
  by (simp add: f_fmadd_def ext_times_zero_not_finite)

lemma f_minus_not_finite:
  "\<not> is_finite a \<or> \<not> is_finite b \<or> \<not> is_finite (f_minus rnd a b) \<Longrightarrow>
   \<not> is_finite (f_minus rnd a b)"
  by (cases a; cases b) (simp_all add: f_minus_def)

lemma f_minus_NaN: "f_minus rnd NaN b = NaN"
  by (simp add: f_minus_def)

lemma f_fmadd_NaN: "f_fmadd rnd NaN b c = NaN"
  by (simp add: f_fmadd_def)

lemma abs_2_less_quarter_iff:
  "(Re z * Re z + Im z * Im z < 1 / 4) = (cmod z < 1 / 2)"
proof -
  have sq: "(cmod z)\<^sup>2 = Re z * Re z + Im z * Im z"
    using cmod_power2 [of z] by (simp only: power2_eq_square)
  have half: "((1 / 2)::real)\<^sup>2 = 1 / 4"
    by (simp add: power2_eq_square)
  show ?thesis
  proof
    assume "Re z * Re z + Im z * Im z < 1 / 4"
    with sq half have "(cmod z)\<^sup>2 < (1 / 2)\<^sup>2" by (simp only:)
    then show "cmod z < 1 / 2" by (rule power2_less_imp_less) simp
  next
    assume "cmod z < 1 / 2"
    then have "(cmod z)\<^sup>2 < (1 / 2)\<^sup>2"
      by (intro power_strict_mono) simp_all
    with sq half show "Re z * Re z + Im z * Im z < 1 / 4" by (simp only:)
  qed
qed

lemma exact_anchor: "(w - 1) * (e - s) + e = w * (e - s) + (s::'a::field)"
  by (simp add: algebra_simps)

lemma lerp_vec_template_exact_anchor:
  assumes "lane_minus cap = (\<lambda>a b. a - b)" and "lane_fmadd cap = (\<lambda>a b c. a * b + c)"
    and "vec_one cap = (1::'a::field)"
  shows "lerp_vec_template cap msk start end weight =
     lerp_vec_template cap (replicate (length msk) True) start end weight"
proof (rule nth_equalityI)
  show "length (lerp_vec_template cap msk start end weight) =
    length (lerp_vec_template cap (replicate (length msk) True) start end weight)"
    by (simp add: lerp_vec_template_length)
next
  fix i
  assume "i < length (lerp_vec_template cap msk start end weight)"
  then have i: "i < length weight" "i < vec_size cap" "i < length msk"
    "i < length start" "i < length end"
    by (simp_all add: lerp_vec_template_length)
  then show "lerp_vec_template cap msk start end weight ! i =
    lerp_vec_template cap (replicate (length msk) True) start end weight ! i"
    by (simp add: lerp_vec_template_nth assms exact_anchor)
qed

section \<open>The scalar formula and the complex element type\<close>

text \<open>
  Known roundings of \<^verbatim>\<open>double\<close>: \<open>0.1\<close> is \<open>3602879701896397 / 2\<^sup>5\<^sup>5\<close>, the ties \<open>2\<^sup>5\<^sup>3 + 1\<close>
  and \<open>2\<^sup>5\<^sup>3 + 3\<close> go to the even neighbours, and \<open>1 - 2\<^sup>5\<^sup>4\<close> is rounded to \<open>-2\<^sup>5\<^sup>4\<close>.
\<close>

lemma rnd_binary64_samples:
  "rnd_binary64 (1 / 10) = Fin (3602879701896397 / 2 ^ 55)"
  "rnd_binary64 (2 ^ 53 + 1) = Fin (2 ^ 53)"
  "rnd_binary64 (2 ^ 53 + 3) = Fin (2 ^ 53 + 4)"
  "rnd_binary64 (1 - 2 ^ 54) = Fin (- (2 ^ 54))"
  "rnd_binary64 (- 1 / 4) = Fin (- 1 / 4)"
  by code_simp+

lemma ieee_complex_cap_simps:
  "vec_size (ieee_complex_cap rnd m) = m" "vec_one (ieee_complex_cap rnd m) = (Fin 1, Fin 0)"
  "lane_minus (ieee_complex_cap rnd m) = c_minus rnd"
  "lane_fmadd (ieee_complex_cap rnd m) = c_fmadd rnd"
  "lane_abs_2 (ieee_complex_cap rnd m) = c_abs_2 rnd"
  "value_less (ieee_complex_cap rnd m) = f_less"
  "value_quarter (ieee_complex_cap rnd m) = Fin (1 / 4)"
  by (simp_all add: ieee_complex_cap_def)




lemma f_plus_finite: "f_plus rnd (Fin x) (Fin y) = rnd (x + y)"
  by (simp add: f_plus_def)

lemma f_times_finite: "f_times rnd (Fin x) (Fin y) = rnd (x * y)"
  by (simp add: f_times_def)






lemma rat_abs_2_less_quarter_iff:
  "(x * x + y * y < (1 / 4 :: rat)) = (cmod (Complex (of_rat x) (of_rat y)) < 1 / 2)"
proof -
  have "(x * x + y * y < (1 / 4 :: rat))
      = ((of_rat (x * x + y * y) :: real) < of_rat (1 / 4))"
    by (simp only: of_rat_less)
  also have "\<dots> = (Re (Complex (of_rat x) (of_rat y)) * Re (Complex (of_rat x) (of_rat y))
      + Im (Complex (of_rat x) (of_rat y)) * Im (Complex (of_rat x) (of_rat y)) < 1 / 4)"
    by (simp add: of_rat_add of_rat_mult of_rat_divide)
  finally show ?thesis
    by (simp only: abs_2_less_quarter_iff)
qed








section \<open>The engine on a constant weight array\<close>

lemma cpu_kernel_vec3_constant_weight:
  "min (length a) (length b) \<le> m \<Longrightarrow>
   cpu_kernel_vec3 n op vop a b (replicate m w) =
   cpu_kernel_vec2 n (\<lambda>x y. op x y w) (\<lambda>x y. vop x y (replicate n w)) a b"
proof (induction n "\<lambda>x y. op x y w" "\<lambda>x y. vop x y (replicate n w)" a b arbitrary: m
    rule: cpu_kernel_vec2.induct)
  case (1 n a b)
  show ?case
  proof (cases "0 < n \<and> n \<le> length a \<and> n \<le> length b")
    case True
    with "1.prems" have nm: "n \<le> m" by arith
    from True "1.prems" have "min (length (drop n a)) (length (drop n b)) \<le> m - n"
      by simp
    with True have "cpu_kernel_vec3 n op vop (drop n a) (drop n b) (replicate (m - n) w) =
      cpu_kernel_vec2 n (\<lambda>x y. op x y w) (\<lambda>x y. vop x y (replicate n w)) (drop n a) (drop n b)"
      by (intro "1.hyps") simp_all
    with True nm show ?thesis
      by (subst cpu_kernel_vec3.simps, subst cpu_kernel_vec2.simps) (simp add: min_absorb2)
  next
    case False
    have "map (\<lambda>(x, y, z). op x y z) (zip a (zip b (replicate m w))) =
          map (\<lambda>(x, y). op x y w) (zip a b)"
      using "1.prems" by (intro nth_equalityI) auto
    with False show ?thesis
      by (subst cpu_kernel_vec3.simps, subst cpu_kernel_vec2.simps) auto
  qed
qed

section \<open>The properties\<close>




text \<open>
  C2. For batches of the lane count, the vectorized lerp is, lane by lane, one application
  of the interface's fused multiply-add to \<open>coeff\<close>, \<open>end - start\<close> and \<open>base\<close>, where
  \<open>coeff\<close> is the weight if the lane of the magnitude mask is set and \<open>weight - 1\<close>
  otherwise, and \<open>base\<close> is the start if it is set and the end otherwise. This holds at a
  real element type, and at a complex one on the direct path. The product and the sum are
  never formed apart: \<open>lane_fmadd\<close> is the only arithmetic applied to \<open>coeff\<close> and \<open>base\<close>.
\<close>

theorem lerp_vec_coeff_base_fmadd:
  assumes "length start = vec_size cap" and "length end = vec_size cap"
    and "length weight = vec_size cap"
    and "direct_complex_path cfg"
    and "length cstart = vec_size ccap" and "length cend = vec_size ccap"
    and "length cweight = vec_size ccap"
  shows "lerp_vec cap start end weight =
     map (\<lambda>(m, s, e, w).
            lane_fmadd cap (if m then w else lane_minus cap w (vec_one cap))
              (lane_minus cap e s) (if m then s else e))
       (zip (is_lerp_weight_small cap weight) (zip start (zip end weight)))
   \<and> lerp_vec_complex cfg lerp ccap result_arr0 cstart cend cweight =
     map (\<lambda>(m, s, e, w).
            lane_fmadd ccap (if m then w else lane_minus ccap w (vec_one ccap))
              (lane_minus ccap e s) (if m then s else e))
       (zip (is_lerp_weight_small_complex ccap cweight) (zip cstart (zip cend cweight)))"
  using assms
  by (simp add: lerp_vec_def lerp_vec_complex_def lerp_vec_template_lanes)

text \<open>
  The theorem at two lanes: weights \<open>1\<close> (anchored at the end) and \<open>1/4\<close> (anchored at the
  start), for a real and for a complex element type.
\<close>

theorem lerp_vec_coeff_base_fmadd_witness:
  "length [Fin 0, Fin 3] = vec_size (ieee_cap (rnd_upto 1000) 2)
   \<and> length [Fin 5, Fin 7] = vec_size (ieee_cap (rnd_upto 1000) 2)
   \<and> length [Fin 1, Fin (1 / 4)] = vec_size (ieee_cap (rnd_upto 1000) 2)
   \<and> direct_complex_path \<lparr>cpu_capability_default = False, msc_ver = False\<rparr>
   \<and> length [(Fin 0, Fin 0), (Fin 2, Fin 0)] = vec_size (ieee_complex_cap rnd_binary64 2)
   \<and> length [(Fin 0, Fin 1), (Fin 4, Fin 0)] = vec_size (ieee_complex_cap rnd_binary64 2)
   \<and> length [(Fin 1, Fin 0), (Fin (1 / 4), Fin 0)] = vec_size (ieee_complex_cap rnd_binary64 2)
   \<and> lerp_vec (ieee_cap (rnd_upto 1000) 2) [Fin 0, Fin 3] [Fin 5, Fin 7] [Fin 1, Fin (1 / 4)]
       = [Fin 5, Fin 4]
   \<and> lerp_vec_complex \<lparr>cpu_capability_default = False, msc_ver = False\<rparr> (\<lambda>s e w. s)
        (ieee_complex_cap rnd_binary64 2) [(Fin 7, Fin 7), (Fin 9, Fin 9)]
        [(Fin 0, Fin 0), (Fin 2, Fin 0)] [(Fin 0, Fin 1), (Fin 4, Fin 0)]
        [(Fin 1, Fin 0), (Fin (1 / 4), Fin 0)] = [(Fin 0, Fin 1), (Fin (5 / 2), Fin 0)]"
proof -
  have "lerp_vec (ieee_cap (rnd_upto 1000) 2) [Fin 0, Fin 3] [Fin 5, Fin 7] [Fin 1, Fin (1 / 4)]
       = [Fin 5, Fin 4]"
    by code_simp
  moreover have "lerp_vec_complex \<lparr>cpu_capability_default = False, msc_ver = False\<rparr>
        (\<lambda>s e w. s)
        (ieee_complex_cap rnd_binary64 2) [(Fin 7, Fin 7), (Fin 9, Fin 9)]
        [(Fin 0, Fin 0), (Fin 2, Fin 0)] [(Fin 0, Fin 1), (Fin 4, Fin 0)]
        [(Fin 1, Fin 0), (Fin (1 / 4), Fin 0)] = [(Fin 0, Fin 1), (Fin (5 / 2), Fin 0)]"
    by code_simp
  ultimately show ?thesis
    using lerp_vec_coeff_base_fmadd
      [of "[Fin 0, Fin 3]" "ieee_cap (rnd_upto 1000) 2" "[Fin 5, Fin 7]" "[Fin 1, Fin (1 / 4)]"
          "\<lparr>cpu_capability_default = False, msc_ver = False\<rparr>"
          "[(Fin 0, Fin 0), (Fin 2, Fin 0)]" "ieee_complex_cap rnd_binary64 2"
          "[(Fin 0, Fin 1), (Fin 4, Fin 0)]" "[(Fin 1, Fin 0), (Fin (1 / 4), Fin 0)]"
          "\<lambda>s e w. s" "[(Fin 7, Fin 7), (Fin 9, Fin 9)]"]
    by (simp add: ieee_cap_def ieee_complex_cap_def direct_complex_path_def)
qed

text \<open>
  C3, as stated, fails for complex element types in \<^verbatim>\<open>double\<close>: the weight with real part
  \<open>(2\<^sup>5\<^sup>3 - 1) / 2\<^sup>5\<^sup>4\<close> and imaginary part \<open>(2\<^sup>5\<^sup>3 - 1) / 2\<^sup>8\<^sup>0\<close> has a squared magnitude below
  \<open>1/4\<close>, so a magnitude below \<open>1/2\<close>, but the sum of the rounded squares rounds to \<open>1/4\<close>
  and the lane is not small.
\<close>

theorem is_lerp_weight_small_complex_counterexample:
  "is_lerp_weight_small_complex (ieee_complex_cap rnd_binary64 1)
     [(Fin ((2 ^ 53 - 1) / 2 ^ 54), Fin ((2 ^ 53 - 1) / 2 ^ 80))] = [False]
   \<and> (2 ^ 53 - 1) / 2 ^ 54 * ((2 ^ 53 - 1) / 2 ^ 54)
       + (2 ^ 53 - 1) / 2 ^ 80 * ((2 ^ 53 - 1) / 2 ^ 80) < (1 / 4 :: rat)"
proof -
  have "is_lerp_weight_small_complex (ieee_complex_cap rnd_binary64 1)
     [(Fin ((2 ^ 53 - 1) / 2 ^ 54), Fin ((2 ^ 53 - 1) / 2 ^ 80))] = [False]"
    by code_simp
  moreover have "(2 ^ 53 - 1) / 2 ^ 54 * ((2 ^ 53 - 1) / 2 ^ 54)
       + (2 ^ 53 - 1) / 2 ^ 80 * ((2 ^ 53 - 1) / 2 ^ 80) < (1 / 4 :: rat)"
    by simp
  ultimately show ?thesis by (rule conjI)
qed

text \<open>
  C3, amended. For a batch of the lane count, the classifier of a real element type sets
  a lane exactly when the weight is a finite number of magnitude below \<open>1/2\<close> (never for a
  NaN or an infinity). On the direct path the classifier of a complex element type sets a
  lane exactly when the squared magnitude as the component type computes it, the rounded
  sum of the rounded squares of the two components, is below \<open>1/4\<close>. In a lane with finite
  components where the two squares and their sum are computed exactly, that is the
  condition that the magnitude of the weight is below \<open>1/2\<close>.
\<close>

theorem is_lerp_weight_small_threshold:
  assumes "length weight = n" and "length cweight = m" and "j < m"
    and "cweight ! j = (Fin x, Fin y)"
    and "computed_exactly rnd [x * x, y * y, x * x + y * y]"
  shows "is_lerp_weight_small (ieee_cap rnd n) weight =
           map (\<lambda>w. case w of Fin x \<Rightarrow> \<bar>x\<bar> < 1 / 2 | _ \<Rightarrow> False) weight
       \<and> is_lerp_weight_small_complex (ieee_complex_cap rnd m) cweight =
           map (\<lambda>(a, b). f_less (f_plus rnd (f_times rnd a a) (f_times rnd b b)) (Fin (1 / 4)))
             cweight
       \<and> is_lerp_weight_small_complex (ieee_complex_cap rnd m) cweight ! j
           = (x * x + y * y < 1 / 4)
       \<and> (x * x + y * y < 1 / 4) = (cmod (Complex (of_rat x) (of_rat y)) < 1 / 2)"
proof (intro conjI)
  show "is_lerp_weight_small (ieee_cap rnd n) weight =
           map (\<lambda>w. case w of Fin x \<Rightarrow> \<bar>x\<bar> < 1 / 2 | _ \<Rightarrow> False) weight"
    using assms(1) by (simp add: is_lerp_weight_small_lanes ieee_cap_simps f_less_abs_half)
  have c: "is_lerp_weight_small_complex (ieee_complex_cap rnd m) cweight =
      map (\<lambda>w. f_less (c_abs_2 rnd w) (Fin (1 / 4))) cweight"
    using assms(2) by (simp add: is_lerp_weight_small_complex_lanes ieee_complex_cap_simps)
  have "(\<lambda>w. f_less (c_abs_2 rnd w) (Fin (1 / 4))) =
      (\<lambda>(a, b). f_less (f_plus rnd (f_times rnd a a) (f_times rnd b b)) (Fin (1 / 4)))"
    by (rule ext) (simp add: split_beta case_prod_unfold, metis c_abs_2.simps prod.collapse)
  with c show "is_lerp_weight_small_complex (ieee_complex_cap rnd m) cweight =
           map (\<lambda>(a, b). f_less (f_plus rnd (f_times rnd a a) (f_times rnd b b)) (Fin (1 / 4)))
             cweight"
    by (simp only:)
  from assms(2-5) c
  show "is_lerp_weight_small_complex (ieee_complex_cap rnd m) cweight ! j
           = (x * x + y * y < 1 / 4)"
    by (simp add: computed_exactly_def f_plus_finite f_times_finite)
  show "(x * x + y * y < 1 / 4) = (cmod (Complex (of_rat x) (of_rat y)) < 1 / 2)"
    by (rule rat_abs_2_less_quarter_iff)
qed

text \<open>
  The theorem in \<^verbatim>\<open>double\<close> at the real weights \<open>1/4\<close>, \<open>-1/2\<close> (the threshold itself is not
  small), NaN and infinity, and at lane \<open>0\<close> of the complex weights \<open>1/4 + i/4\<close> and
  \<open>3/8 + i/2\<close>.
\<close>

theorem is_lerp_weight_small_threshold_witness:
  "length [Fin (1 / 4), Fin (- 1 / 2), NaN, PInf] = 4
   \<and> length [(Fin (1 / 4), Fin (1 / 4)), (Fin (3 / 8), Fin (1 / 2))] = 2 \<and> (0::nat) < 2
   \<and> [(Fin (1 / 4), Fin (1 / 4)), (Fin (3 / 8), Fin (1 / 2))] ! 0 = (Fin (1 / 4), Fin (1 / 4))
   \<and> computed_exactly rnd_binary64 [1 / 4 * (1 / 4), 1 / 4 * (1 / 4), 1 / 4 * (1 / 4) + 1 / 4 * (1 / 4)]
   \<and> is_lerp_weight_small (ieee_cap rnd_binary64 4) [Fin (1 / 4), Fin (- 1 / 2), NaN, PInf]
       = [True, False, False, False]
   \<and> is_lerp_weight_small_complex (ieee_complex_cap rnd_binary64 2)
        [(Fin (1 / 4), Fin (1 / 4)), (Fin (3 / 8), Fin (1 / 2))] = [True, False]
   \<and> (1 / 4 * (1 / 4) + 1 / 4 * (1 / 4) < (1 / 4 :: rat))"
proof -
  have e: "computed_exactly rnd_binary64
      [1 / 4 * (1 / 4), 1 / 4 * (1 / 4), 1 / 4 * (1 / 4) + 1 / 4 * (1 / 4)]"
    by code_simp
  have v: "is_lerp_weight_small (ieee_cap rnd_binary64 4) [Fin (1 / 4), Fin (- 1 / 2), NaN, PInf]
       = [True, False, False, False]"
    "is_lerp_weight_small_complex (ieee_complex_cap rnd_binary64 2)
        [(Fin (1 / 4), Fin (1 / 4)), (Fin (3 / 8), Fin (1 / 2))] = [True, False]"
    by code_simp+
  from e v show ?thesis
    using is_lerp_weight_small_threshold
      [of "[Fin (1 / 4), Fin (- 1 / 2), NaN, PInf]" 4
          "[(Fin (1 / 4), Fin (1 / 4)), (Fin (3 / 8), Fin (1 / 2))]" 2 0 "1 / 4" "1 / 4"
          rnd_binary64]
    by simp
qed

text \<open>
  C4. Over exact numbers the anchor does not matter: the end-anchored value
  \<open>(weight - 1) * (end - start) + end\<close> is the start-anchored value
  \<open>weight * (end - start) + start\<close>, so whatever mask the template is given, real or
  complex, its result is the one it gives when every lane is anchored at the start.
\<close>

theorem lerp_vec_anchor_independent:
  "lerp_vec_template (exact_cap n) msk start end weight =
     lerp_vec_template (exact_cap n) (replicate (length msk) True) start end weight
   \<and> lerp_vec_template (exact_complex_cap n) msk cstart cend cweight =
     lerp_vec_template (exact_complex_cap n) (replicate (length msk) True) cstart cend cweight
   \<and> lane_fmadd (exact_cap n) (lane_minus (exact_cap n) w (vec_one (exact_cap n)))
        (lane_minus (exact_cap n) e s) e
     = lane_fmadd (exact_cap n) w (lane_minus (exact_cap n) e s) s"
proof (intro conjI)
  show "lerp_vec_template (exact_cap n) msk start end weight =
     lerp_vec_template (exact_cap n) (replicate (length msk) True) start end weight"
    by (rule lerp_vec_template_exact_anchor) (simp_all add: exact_cap_def)
  show "lerp_vec_template (exact_complex_cap n) msk cstart cend cweight =
     lerp_vec_template (exact_complex_cap n) (replicate (length msk) True) cstart cend cweight"
    by (rule lerp_vec_template_exact_anchor) (simp_all add: exact_complex_cap_def)
  show "lane_fmadd (exact_cap n) (lane_minus (exact_cap n) w (vec_one (exact_cap n)))
        (lane_minus (exact_cap n) e s) e
     = lane_fmadd (exact_cap n) w (lane_minus (exact_cap n) e s) s"
    by (simp add: exact_cap_def exact_anchor)
qed




text \<open>
  C6. The scalar-weight kernel with weight \<open>w\<close> writes, at every position, what the
  tensor-weight kernel writes when its weight array holds \<open>w\<close> (converted to the element
  type) at every position and covers the positions of start and end. This holds for any
  scalar lerp, any vectorized lerp and any lane count; on an unsupported element type
  both leave the output as it was.
\<close>

theorem lerp_scalar_kernel_eq_tensor_kernel:
  assumes "min (length (input_self iter)) (length (input_end iter)) \<le> m"
  shows "iter_output (snd (lerp_scalar_kernel inst to_scalar_t iter w)) =
         iter_output (snd (lerp_tensor_kernel inst
           (iter\<lparr>input_weight := replicate m (to_scalar_t w)\<rparr>)))"
  using assms
  by (simp add: lerp_scalar_kernel_def lerp_tensor_kernel_def
      AT_DISPATCH_FLOATING_AND_COMPLEX_TYPES_def cpu_kernel_vec3_constant_weight Let_def)

text \<open>
  The theorem at three positions and two lanes: one batch and one remaining element.
\<close>

theorem lerp_scalar_kernel_eq_tensor_kernel_witness:
  "min (length (input_self \<lparr>common_dtype = kFloat, iter_output = [0, 0, 0],
          input_self = [0, 1, 2], input_end = [4, 5, 6 :: rat], input_weight = []\<rparr>))
       (length (input_end \<lparr>common_dtype = kFloat, iter_output = [0, 0, 0],
          input_self = [0, 1, 2], input_end = [4, 5, 6 :: rat], input_weight = []\<rparr>)) \<le> 3
   \<and> iter_output (snd (lerp_scalar_kernel
        (real_instance (exact_cap 2) (\<lambda>s e w. s + w * (e - s))) (\<lambda>x. x)
        \<lparr>common_dtype = kFloat, iter_output = [0, 0, 0],
          input_self = [0, 1, 2], input_end = [4, 5, 6 :: rat], input_weight = []\<rparr> (1 / 4)))
       = [1, 2, 3]
   \<and> iter_output (snd (lerp_tensor_kernel
        (real_instance (exact_cap 2) (\<lambda>s e w. s + w * (e - s)))
        \<lparr>common_dtype = kFloat, iter_output = [0, 0, 0],
          input_self = [0, 1, 2], input_end = [4, 5, 6 :: rat],
          input_weight = [1 / 4, 1 / 4, 1 / 4]\<rparr>))
       = [1, 2, 3]"
proof -
  have "iter_output (snd (lerp_scalar_kernel
        (real_instance (exact_cap 2) (\<lambda>s e w. s + w * (e - s))) (\<lambda>x. x)
        \<lparr>common_dtype = kFloat, iter_output = [0, 0, 0],
          input_self = [0, 1, 2], input_end = [4, 5, 6 :: rat], input_weight = []\<rparr> (1 / 4)))
       = [1, 2, 3]"
    by code_simp
  then show ?thesis
    using lerp_scalar_kernel_eq_tensor_kernel
      [of "\<lparr>common_dtype = kFloat, iter_output = [0, 0, 0],
          input_self = [0, 1, 2], input_end = [4, 5, 6 :: rat], input_weight = []\<rparr>" 3
          "(real_instance (exact_cap 2) (\<lambda>s e w. s + w * (e - s)))" "\<lambda>x. x" "1 / 4"]
    by (simp add: numeral_3_eq_3)
qed

text \<open>
  C7. On the path without the direct complex classifier (default capability, not the
  Microsoft compiler), for batches of the lane count, the complex \<^verbatim>\<open>lerp_vec\<close> stores the
  batches, applies the scalar lerp lane by lane and loads the result; the batch it returns
  is, at every lane, what the scalar lerp gives when run element by element over the same
  data, whatever the scalar lerp is and whatever the result buffer held before.
\<close>

theorem lerp_vec_complex_fallback_eq_scalar_loop:
  assumes "cpu_capability_default cfg" and "\<not> msc_ver cfg"
    and "length start = vec_size cap" and "length end = vec_size cap"
    and "length weight = vec_size cap" and "length result_arr0 = vec_size cap"
  shows "lerp_vec_complex cfg lerp cap result_arr0 start end weight
       = scalar_loop lerp start end weight"
  using assms
  by (simp add: lerp_vec_complex_def direct_complex_path_def lerp_vec_map_eq_scalar_loop)

text \<open>
  The theorem at two complex lanes in \<^verbatim>\<open>double\<close>, with the scalar formula
  \<open>start + weight*(end-start)\<close> and a result buffer that held \<open>7 + 7i\<close> and \<open>9 + 9i\<close>.
\<close>

theorem lerp_vec_complex_fallback_eq_scalar_loop_witness:
  "cpu_capability_default \<lparr>cpu_capability_default = True, msc_ver = False\<rparr>
   \<and> \<not> msc_ver \<lparr>cpu_capability_default = True, msc_ver = False\<rparr>
   \<and> length [(Fin 0, Fin 0), (Fin 2, Fin 0)] = vec_size (ieee_complex_cap rnd_binary64 2)
   \<and> length [(Fin 0, Fin 1), (Fin 4, Fin 0)] = vec_size (ieee_complex_cap rnd_binary64 2)
   \<and> length [(Fin 1, Fin 0), (Fin (1 / 4), Fin 0)] = vec_size (ieee_complex_cap rnd_binary64 2)
   \<and> length [(Fin 7, Fin 7), (Fin 9, Fin 9)] = vec_size (ieee_complex_cap rnd_binary64 2)
   \<and> lerp_vec_complex \<lparr>cpu_capability_default = True, msc_ver = False\<rparr>
        (lerp_spec_complex rnd_binary64) (ieee_complex_cap rnd_binary64 2)
        [(Fin 7, Fin 7), (Fin 9, Fin 9)] [(Fin 0, Fin 0), (Fin 2, Fin 0)]
        [(Fin 0, Fin 1), (Fin 4, Fin 0)] [(Fin 1, Fin 0), (Fin (1 / 4), Fin 0)]
       = [(Fin 0, Fin 1), (Fin (5 / 2), Fin 0)]
   \<and> scalar_loop (lerp_spec_complex rnd_binary64) [(Fin 0, Fin 0), (Fin 2, Fin 0)]
        [(Fin 0, Fin 1), (Fin 4, Fin 0)] [(Fin 1, Fin 0), (Fin (1 / 4), Fin 0)]
       = [(Fin 0, Fin 1), (Fin (5 / 2), Fin 0)]"
proof -
  have "scalar_loop (lerp_spec_complex rnd_binary64) [(Fin 0, Fin 0), (Fin 2, Fin 0)]
        [(Fin 0, Fin 1), (Fin 4, Fin 0)] [(Fin 1, Fin 0), (Fin (1 / 4), Fin 0)]
       = [(Fin 0, Fin 1), (Fin (5 / 2), Fin 0)]"
    by code_simp
  then show ?thesis
    using lerp_vec_complex_fallback_eq_scalar_loop
      [of "\<lparr>cpu_capability_default = True, msc_ver = False\<rparr>"
          "[(Fin 0, Fin 0), (Fin 2, Fin 0)]" "ieee_complex_cap rnd_binary64 2"
          "[(Fin 0, Fin 1), (Fin 4, Fin 0)]" "[(Fin 1, Fin 0), (Fin (1 / 4), Fin 0)]"
          "[(Fin 7, Fin 7), (Fin 9, Fin 9)]" "lerp_spec_complex rnd_binary64"]
    by (simp add: ieee_complex_cap_def)
qed

text \<open>
  C8. When the common element type is neither a floating-point nor a complex
  floating-point type, both kernels return the unsupported-type error of the dispatch
  and the iterator, its output range included, is as it was: the body, and with it the
  engine and every lerp, is not run.
\<close>

theorem lerp_kernels_unsupported_type:
  assumes "\<not> is_floating_type (common_dtype iter)" and "\<not> is_complex_type (common_dtype iter)"
  shows "lerp_scalar_kernel inst to_scalar_t iter w =
           (Inl (NotImplementedError ''lerp_kernel_scalar'' (common_dtype iter)), iter)
       \<and> lerp_tensor_kernel inst iter =
           (Inl (NotImplementedError ''lerp_kernel_tensor'' (common_dtype iter)), iter)"
  using assms
  by (simp add: lerp_scalar_kernel_def lerp_tensor_kernel_def
      AT_DISPATCH_FLOATING_AND_COMPLEX_TYPES_def)

text \<open>The theorem at a 32-bit integer element type.\<close>

theorem lerp_kernels_unsupported_type_witness:
  "\<not> is_floating_type (common_dtype \<lparr>common_dtype = kInt, iter_output = [9, 9],
        input_self = [0, 1], input_end = [4, 5 :: rat], input_weight = [1, 1]\<rparr>)
   \<and> \<not> is_complex_type (common_dtype \<lparr>common_dtype = kInt, iter_output = [9, 9],
        input_self = [0, 1], input_end = [4, 5 :: rat], input_weight = [1, 1]\<rparr>)
   \<and> lerp_scalar_kernel
        (real_instance (exact_cap 2) (\<lambda>s e w. s + w * (e - s))) (\<lambda>x. x)
        \<lparr>common_dtype = kInt, iter_output = [9, 9],
        input_self = [0, 1], input_end = [4, 5 :: rat], input_weight = [1, 1]\<rparr> 1
       = (Inl (NotImplementedError ''lerp_kernel_scalar'' kInt),
          \<lparr>common_dtype = kInt, iter_output = [9, 9],
        input_self = [0, 1], input_end = [4, 5 :: rat], input_weight = [1, 1]\<rparr>)
   \<and> lerp_tensor_kernel
        (real_instance (exact_cap 2) (\<lambda>s e w. s + w * (e - s)))
        \<lparr>common_dtype = kInt, iter_output = [9, 9],
        input_self = [0, 1], input_end = [4, 5 :: rat], input_weight = [1, 1]\<rparr>
       = (Inl (NotImplementedError ''lerp_kernel_tensor'' kInt),
          \<lparr>common_dtype = kInt, iter_output = [9, 9],
        input_self = [0, 1], input_end = [4, 5 :: rat], input_weight = [1, 1]\<rparr>)"
  using lerp_kernels_unsupported_type
    [of "\<lparr>common_dtype = kInt, iter_output = [9, 9],
        input_self = [0, 1], input_end = [4, 5 :: rat], input_weight = [1, 1]\<rparr>"
        "(real_instance (exact_cap 2) (\<lambda>s e w. s + w * (e - s)))" "\<lambda>x. x" 1]
  by simp

text \<open>
  C9. In a lane of a real batch whose weight is a NaN, the magnitude mask is not set
  (the comparison with \<open>0.5\<close> is false), the coefficient the blend selects is \<open>NaN - 1\<close>,
  which is a NaN, the base it selects is the end, and the lane of the result is a NaN,
  whatever start and end are.
\<close>

theorem lerp_vec_nan_weight:
  assumes "length start = n" and "length end = n" and "length weight = n"
    and "i < n" and "weight ! i = NaN"
  shows "is_lerp_weight_small (ieee_cap rnd n) weight ! i = False
       \<and> blendv (vec_minus (ieee_cap rnd n) weight (broadcast (ieee_cap rnd n) (Fin 1))) weight
           (is_lerp_weight_small (ieee_cap rnd n) weight) ! i = f_minus rnd NaN (Fin 1)
       \<and> f_minus rnd NaN (Fin 1) = NaN
       \<and> blendv end start (is_lerp_weight_small (ieee_cap rnd n) weight) ! i = end ! i
       \<and> lerp_vec (ieee_cap rnd n) start end weight ! i = NaN"
proof (intro conjI)
  from assms show m: "is_lerp_weight_small (ieee_cap rnd n) weight ! i = False"
    by (simp add: is_lerp_weight_small_lanes ieee_cap_simps)
  from assms m
  show "blendv (vec_minus (ieee_cap rnd n) weight (broadcast (ieee_cap rnd n) (Fin 1))) weight
           (is_lerp_weight_small (ieee_cap rnd n) weight) ! i = f_minus rnd NaN (Fin 1)"
    by (simp add: blendv_def vec_minus_def broadcast_def is_lerp_weight_small_lanes ieee_cap_simps)
  show "f_minus rnd NaN (Fin 1) = NaN" by (rule f_minus_NaN)
  from assms m
  show "blendv end start (is_lerp_weight_small (ieee_cap rnd n) weight) ! i = end ! i"
    by (simp add: blendv_def is_lerp_weight_small_lanes ieee_cap_simps)
  from assms show "lerp_vec (ieee_cap rnd n) start end weight ! i = NaN"
    by (simp add: ieee_lerp_vec_nth f_minus_NaN f_fmadd_NaN)
qed

text \<open>The theorem at lane \<open>1\<close> of two lanes.\<close>

theorem lerp_vec_nan_weight_witness:
  "length [Fin 1, Fin 2] = 2 \<and> length [Fin 3, Fin 4] = 2 \<and> length [Fin (1 / 4), NaN] = 2
   \<and> (1::nat) < 2 \<and> [Fin (1 / 4), NaN] ! 1 = NaN
   \<and> is_lerp_weight_small (ieee_cap (rnd_upto 1000) 2) [Fin (1 / 4), NaN] = [True, False]
   \<and> lerp_vec (ieee_cap (rnd_upto 1000) 2) [Fin 1, Fin 2] [Fin 3, Fin 4] [Fin (1 / 4), NaN]
       = [Fin (3 / 2), NaN]"
proof -
  have "is_lerp_weight_small (ieee_cap (rnd_upto 1000) 2) [Fin (1 / 4), NaN] = [True, False]"
    by code_simp
  moreover have "lerp_vec (ieee_cap (rnd_upto 1000) 2) [Fin 1, Fin 2] [Fin 3, Fin 4]
       [Fin (1 / 4), NaN] = [Fin (3 / 2), NaN]"
    by code_simp
  ultimately show ?thesis
    using lerp_vec_nan_weight
      [of "[Fin 1, Fin 2]" 2 "[Fin 3, Fin 4]" "[Fin (1 / 4), NaN]" 1 "rnd_upto 1000"]
    by simp
qed

text \<open>
  C10. In a lane of a real batch whose weight is \<open>0\<close> and whose difference
  \<open>end - start\<close> is not finite (the start or the end is infinite or a NaN, or the
  difference overflows), the lane of the result is a NaN and does not compare equal to
  the start: the lane can equal the start at weight \<open>0\<close> only when the difference is
  finite.
\<close>

theorem lerp_vec_zero_weight_not_finite:
  assumes "length start = n" and "length end = n" and "length weight = n"
    and "i < n" and "weight ! i = Fin 0"
    and "\<not> is_finite (start ! i) \<or> \<not> is_finite (end ! i)
       \<or> \<not> is_finite (f_minus rnd (end ! i) (start ! i))"
  shows "lerp_vec (ieee_cap rnd n) start end weight ! i = NaN
       \<and> \<not> f_eq (lerp_vec (ieee_cap rnd n) start end weight ! i) (start ! i)"
proof -
  from assms(6) have "\<not> is_finite (f_minus rnd (end ! i) (start ! i))"
    using f_minus_not_finite [of "end ! i" "start ! i" rnd] by blast
  with assms(1-5) have "lerp_vec (ieee_cap rnd n) start end weight ! i = NaN"
    by (simp add: ieee_lerp_vec_nth f_fmadd_zero_not_finite)
  then show ?thesis by simp
qed

text \<open>
  The theorem at lane \<open>0\<close> of two lanes, where the end is infinite; in lane \<open>1\<close> the
  difference \<open>800 - (-800)\<close> overflows.
\<close>

theorem lerp_vec_zero_weight_not_finite_witness:
  "length [Fin 1, Fin (- 800)] = 2 \<and> length [PInf, Fin 800] = 2 \<and> length [Fin 0, Fin 0] = 2
   \<and> (0::nat) < 2 \<and> [Fin 0, Fin 0] ! 0 = Fin 0
   \<and> \<not> is_finite ([PInf, Fin 800] ! 0)
   \<and> \<not> is_finite (f_minus (rnd_upto 1000) ([PInf, Fin 800] ! 1) ([Fin 1, Fin (- 800)] ! 1))
   \<and> lerp_vec (ieee_cap (rnd_upto 1000) 2) [Fin 1, Fin (- 800)] [PInf, Fin 800] [Fin 0, Fin 0]
       = [NaN, NaN]"
proof -
  have h: "\<not> is_finite (f_minus (rnd_upto 1000) ([PInf, Fin 800] ! 1) ([Fin 1, Fin (- 800)] ! 1))"
    by (simp add: f_minus_def rnd_upto_def)
  have "lerp_vec (ieee_cap (rnd_upto 1000) 2) [Fin 1, Fin (- 800)] [PInf, Fin 800]
       [Fin 0, Fin 0] = [NaN, NaN]"
    by code_simp
  with h show ?thesis
    using lerp_vec_zero_weight_not_finite
      [of "[Fin 1, Fin (- 800)]" 2 "[PInf, Fin 800]" "[Fin 0, Fin 0]" 0 "rnd_upto 1000"]
    by simp
qed

end
